theory Spec2Isabelle
  imports Main "HOL-Library.AList"
begin

section \<open>Values of the browser chrome\<close>

text \<open>
  The chrome keeps its whole state in one immutable tree (Immutable.js maps and lists
  over strings, numbers, booleans and null), reads and writes it through cursors, and
  stores it as JSON text. One datatype stands for the values of that tree, for the plain
  JavaScript values \<^verbatim>\<open>toJSON\<close> makes of them and for what \<^verbatim>\<open>JSON.parse\<close> returns:
  \<^verbatim>\<open>fromJS\<close> and \<^verbatim>\<open>toJSON\<close> change the representation, not the value.
  An object or a map is an association list in insertion order; the numbers the code
  under study writes are the integers \<open>-1\<close> and \<open>0\<close>, and numbers are integers here.
  A string is its text; the value \<^verbatim>\<open>undefined\<close> is \<open>None\<close> of an option.
\<close>

datatype json =
  JNull
  | JBool bool
  | JNum int
  | JStr string
  | JArr "json list"
  | JObj "(string \<times> json) list"

datatype js_error = TypeError | SyntaxError

text \<open>An Immutable.Map with string keys, and the web viewers of the deck.\<close>

type_synonym imap = "(string \<times> json) list"
type_synonym viewer = imap

text \<open>JavaScript's ToBoolean, which \<^verbatim>\<open>a ? b : c\<close> and \<^verbatim>\<open>a || b\<close> apply.\<close>

fun truthy :: "json \<Rightarrow> bool" where
  "truthy JNull = False"
| "truthy (JBool b) = b"
| "truthy (JNum n) = (n \<noteq> 0)"
| "truthy (JStr s) = (s \<noteq> [])"
| "truthy (JArr xs) = True"
| "truthy (JObj m) = True"

definition truthy_value :: "json option \<Rightarrow> bool" where
  "truthy_value v = (case v of None \<Rightarrow> False | Some x \<Rightarrow> truthy x)"

subsection \<open>Immutable.Map: get, set, merge\<close>

definition Map_get :: "imap \<Rightarrow> string \<Rightarrow> json option" where
  "Map_get m k = map_of m k"

definition Map_set :: "string \<Rightarrow> json \<Rightarrow> imap \<Rightarrow> imap" where
  "Map_set k v m = AList.update k v m"

text \<open>\<^verbatim>\<open>m.merge(patch)\<close> sets every entry of the patch, in the patch's order.\<close>

fun Map_merge :: "imap \<Rightarrow> (string \<times> json) list \<Rightarrow> imap" where
  "Map_merge m [] = m"
| "Map_merge m ((k, v) # patch) = Map_merge (Map_set k v m) patch"

section \<open>actions.js: reading the location input\<close>

text \<open>
  The module \<^verbatim>\<open>./util/url\<close> and the platform's \<^verbatim>\<open>encodeURIComponent\<close> are not part of
  the sources at hand: \<open>readInputURL\<close> takes them as parameters. The encoder is a function
  on text; it fails (URIError) only at an unpaired surrogate, which a text cannot hold.
\<close>

record url =
  isNotURL :: "string \<Rightarrow> bool"
  hasScheme :: "string \<Rightarrow> bool"
  encodeURIComponent :: "string \<Rightarrow> string"

definition makeSearchURL :: "url \<Rightarrow> string \<Rightarrow> string" where
  "makeSearchURL U input = ''https://duckduckgo.com/?q='' @ encodeURIComponent U input"

definition readInputURL :: "url \<Rightarrow> string \<Rightarrow> string" where
  "readInputURL U input =
     (if isNotURL U input then makeSearchURL U input
      else if \<not> hasScheme U input then ''http://'' @ input
      else input)"

text \<open>
  An instance of the parameters to run the definitions on: an input is taken for a URL
  when it has no space and has a dot, a scheme is a colon, and the encoder escapes the space
  and keeps every other character.
\<close>

definition example_url :: url where
  "example_url =
     \<lparr> isNotURL = (\<lambda>s. CHR '' '' \<in> set s \<or> CHR ''.'' \<notin> set s),
       hasScheme = (\<lambda>s. CHR '':'' \<in> set s),
       encodeURIComponent = concat \<circ> map (\<lambda>c. if c = CHR '' '' then ''%20'' else [c]) \<rparr>"

section \<open>actions.js: the session and its storage\<close>

text \<open>
  A JavaScript call returns a value or throws: \<open>Inr\<close> the value, \<open>Inl\<close> the error.
  \<open>then_do\<close> is the sequencing of two statements, the second not run when the first
  throws.
\<close>

definition then_do :: "js_error + 'a \<Rightarrow> ('a \<Rightarrow> js_error + 'b) \<Rightarrow> js_error + 'b" where
  "then_do r f = (case r of Inl e \<Rightarrow> Inl e | Inr x \<Rightarrow> f x)"

text \<open>
  \<^verbatim>\<open>JSON.parse\<close> and \<^verbatim>\<open>JSON.stringify\<close> belong to the platform and are parameters.
  \<^verbatim>\<open>localStorage\<close> maps keys to texts; reading a key it does not hold gives
  \<^verbatim>\<open>undefined\<close>.
\<close>

record platform =
  JSON_parse :: "string \<Rightarrow> js_error + json"
  JSON_stringify :: "json \<Rightarrow> string"

type_synonym localStorage = "string \<Rightarrow> string option"

text \<open>
  \<^verbatim>\<open>JSON.parse\<close> turns its argument into text first: \<^verbatim>\<open>undefined\<close> becomes the text
  \<^verbatim>\<open>undefined\<close>, which is not JSON, and the call throws a SyntaxError.
\<close>

definition JSON_parse_value :: "platform \<Rightarrow> string option \<Rightarrow> js_error + json" where
  "JSON_parse_value P v = (case v of None \<Rightarrow> Inl SyntaxError | Some t \<Rightarrow> JSON_parse P t)"

definition version :: string where
  "version = ''0.0.3''"

definition session_key :: string where
  "session_key = ''session@'' @ version"

text \<open>
  \<^verbatim>\<open>fromJS\<close> makes immutable maps and lists of plain objects and arrays and keeps every
  other value; \<^verbatim>\<open>toJSON\<close> is a method of the immutable collections only, so calling it
  on another value throws a TypeError.
\<close>

definition fromJS :: "json \<Rightarrow> json" where
  "fromJS v = v"

fun toJSON :: "json \<Rightarrow> js_error + json" where
  "toJSON (JObj m) = Inr (JObj m)"
| "toJSON (JArr xs) = Inr (JArr xs)"
| "toJSON v = Inl TypeError"

text \<open>\<^verbatim>\<open>x.get(key)\<close> of an immutable value, for a key that is a name.\<close>

fun get :: "json \<Rightarrow> string \<Rightarrow> json option" where
  "get (JObj m) k = map_of m k"
| "get v k = None"

text \<open>
  Reading and assigning a named property of a plain value, in strict mode (the module
  starts with \<^verbatim>\<open>'use strict'\<close>). Reading a property of \<^verbatim>\<open>null\<close> throws; an array or
  a primitive has no such property. Assigning to a property of \<^verbatim>\<open>null\<close> or of a
  primitive throws; an array takes the property, which is no element of it and so no
  part of its JSON text.
\<close>

fun property :: "json \<Rightarrow> string \<Rightarrow> js_error + json option" where
  "property JNull k = Inl TypeError"
| "property (JObj m) k = Inr (map_of m k)"
| "property v k = Inr None"

fun assign :: "json \<Rightarrow> string \<Rightarrow> json \<Rightarrow> js_error + json" where
  "assign (JObj m) k v = Inr (JObj (AList.update k v m))"
| "assign (JArr xs) k v = Inr (JArr xs)"
| "assign x k v = Inl TypeError"

text \<open>
  \<^verbatim>\<open>o.k1.k2 = v\<close>: the value of \<^verbatim>\<open>o.k1\<close> is read (assigning to a property of
  \<^verbatim>\<open>undefined\<close> throws) and changed in place, so \<open>o\<close> holds the changed value.
\<close>

definition assign_in :: "json \<Rightarrow> string \<Rightarrow> string \<Rightarrow> json \<Rightarrow> js_error + json" where
  "assign_in x k1 k2 v =
     then_do (property x k1) (\<lambda>r.
       case r of
         None \<Rightarrow> Inl TypeError
       | Some y \<Rightarrow> then_do (assign y k2 v) (\<lambda>y'. assign x k1 y'))"

definition writeSession :: "platform \<Rightarrow> json \<Rightarrow> localStorage \<Rightarrow> js_error + localStorage" where
  "writeSession P session storage =
     then_do (toJSON session) (\<lambda>s0.
     then_do (assign s0 ''appUpdateAvailable'' (JBool False)) (\<lambda>s1.
     then_do (assign_in s1 ''rfa'' ''id'' (JNum (- 1))) (\<lambda>s2.
       Inr (storage(session_key \<mapsto> JSON_stringify P s2)))))"

text \<open>The \<^verbatim>\<open>try\<close> block of \<open>readSession\<close>, and \<open>readSession\<close> with its \<^verbatim>\<open>catch\<close>.\<close>

definition readSession_try :: "platform \<Rightarrow> localStorage \<Rightarrow> js_error + json" where
  "readSession_try P storage =
     then_do (JSON_parse_value P (storage session_key)) (\<lambda>v. Inr (fromJS v))"

definition readSession :: "platform \<Rightarrow> localStorage \<Rightarrow> js_error + json" where
  "readSession P storage =
     (case readSession_try P storage of Inl error \<Rightarrow> Inr JNull | Inr v \<Rightarrow> Inr v)"

text \<open>
  What the claims say a saved session reads back as: the session with
  \<^verbatim>\<open>appUpdateAvailable\<close> set to false and \<^verbatim>\<open>id\<close> of its \<^verbatim>\<open>rfa\<close> set to \<open>-1\<close>.
  \<open>m\<close> is the session and \<open>r\<close> its \<^verbatim>\<open>rfa\<close> map.
\<close>

definition saved_session :: "imap \<Rightarrow> imap \<Rightarrow> json" where
  "saved_session m r =
     JObj (Map_set ''rfa'' (JObj (Map_set ''id'' (JNum (- 1)) r))
            (Map_set ''appUpdateAvailable'' (JBool False) m))"

section \<open>actions.js: the blank session\<close>

text \<open>
  Modelled from the spec: \<^verbatim>\<open>open\<close> of \<^verbatim>\<open>./web-viewer/actions\<close>, which is not among the
  sources. It makes a fresh blank viewer carrying the fields it is given: the entries
  of the blank viewer with the given ones set over them.
\<close>

definition "open" :: "viewer \<Rightarrow> (string \<times> json) list \<Rightarrow> viewer" where
  "open blank options = Map_merge blank options"

text \<open>
  What \<open>resetSession\<close> takes from outside the module: whether the document has the
  focus, \<^verbatim>\<open>initDashboard\<close> of \<^verbatim>\<open>./dashboard/actions\<close>, and the blank viewer \<^verbatim>\<open>open\<close>
  starts from.
\<close>

record host =
  document_hasFocus :: bool
  initDashboard :: "json \<Rightarrow> json"
  blank_viewer :: viewer

definition dashboardItems :: json where
  "dashboardItems = JArr [
       JObj [(''image'', JStr ''tiles/facebook.com.png''),
             (''uri'', JStr ''https://facebook.com''),
             (''title'', JStr ''facebook.com'')],
       JObj [(''image'', JStr ''tiles/youtube.com.png''),
             (''uri'', JStr ''https://youtube.com''),
             (''title'', JStr ''youtube.com'')],
       JObj [(''image'', JStr ''tiles/amazon.com.png''),
             (''uri'', JStr ''https://amazon.com''),
             (''title'', JStr ''amazon.com'')],
       JObj [(''image'', JStr ''tiles/wikipedia.org.png''),
             (''uri'', JStr ''https://wikipedia.org''),
             (''title'', JStr ''wikipedia.org'')],
       JObj [(''image'', JStr ''tiles/twitter.com.png''),
             (''uri'', JStr ''https://twitter.com''),
             (''title'', JStr ''twitter.com'')],
       JObj [(''image'', JStr ''tiles/mail.google.com.png''),
             (''uri'', JStr ''https://mail.google.com''),
             (''title'', JStr ''mail.google.com'')],
       JObj [(''image'', JStr ''tiles/nytimes.com.png''),
             (''uri'', JStr ''https://nytimes.com''),
             (''title'', JStr ''nytimes.com'')],
       JObj [(''image'', JStr ''tiles/qz.com.png''),
             (''uri'', JStr ''http://qz.com''),
             (''title'', JStr ''qz.com'')],
       JObj [(''image'', JStr ''tiles/github.com.png''),
             (''uri'', JStr ''https://github.com''),
             (''title'', JStr ''github.com'')],
       JObj [(''image'', JStr ''tiles/dropbox.com.png''),
             (''uri'', JStr ''https://dropbox.com''),
             (''title'', JStr ''dropbox.com'')],
       JObj [(''image'', JStr ''tiles/linkedin.com.png''),
             (''uri'', JStr ''https://linkedin.com''),
             (''title'', JStr ''linkedin.com'')],
       JObj [(''image'', JStr ''tiles/yahoo.com.png''),
             (''uri'', JStr ''https://yahoo.com''),
             (''title'', JStr ''yahoo.com'')]]"

definition resetSession :: "host \<Rightarrow> json" where
  "resetSession H = fromJS (JObj [
     (''isDocumentFocused'', JBool (document_hasFocus H)),
     (''input'', JObj [(''value'', JStr ''''), (''isFocused'', JBool False)]),
     (''tabStrip'', JObj [(''isActive'', JBool False)]),
     (''dashboard'', initDashboard H (JObj [(''items'', dashboardItems)])),
     (''rfa'', JObj [(''id'', JNum (- 1))]),
     (''suggestions'', JObj [(''selectedIndex'', JNum (- 1)), (''list'', JArr [])]),
     (''webViewers'', JArr [JObj (open (blank_viewer H)
                                   [(''id'', JStr ''about:blank''),
                                    (''isPinned'', JBool True),
                                    (''isSelected'', JBool True),
                                    (''isActive'', JBool True),
                                    (''isFocused'', JBool False)])])])"

section \<open>index.js: the state the browser starts with\<close>

text \<open>
  \<^verbatim>\<open>render(Browser, readSession() || resetSession(), document.body)\<close>: the state handed
  to \<^verbatim>\<open>render\<close>. \<^verbatim>\<open>a || b\<close> is \<open>a\<close> when \<open>a\<close> is truthy and \<open>b\<close> otherwise.
\<close>

definition initial_state :: "platform \<Rightarrow> host \<Rightarrow> localStorage \<Rightarrow> js_error + json" where
  "initial_state P H storage =
     then_do (readSession P storage) (\<lambda>r. Inr (if truthy r then r else resetSession H))"

section \<open>actions.js: focus, selection and the tab strip\<close>

text \<open>
  Each takes a cursor and sets one field of the map under it:
  \<^verbatim>\<open>focusable.set('isFocused', true)\<close> and its like.
\<close>

definition focus :: "imap \<Rightarrow> imap" where
  "focus focusable = Map_set ''isFocused'' (JBool True) focusable"

definition blur :: "imap \<Rightarrow> imap" where
  "blur focusable = Map_set ''isFocused'' (JBool False) focusable"

definition select :: "imap \<Rightarrow> imap" where
  "select editable = Map_set ''selection'' (JObj [(''all'', JBool True)]) editable"

definition showTabStrip :: "imap \<Rightarrow> imap" where
  "showTabStrip tabStripCursor = Map_set ''isActive'' (JBool True) tabStripCursor"

definition hideTabStrip :: "imap \<Rightarrow> imap" where
  "hideTabStrip tabStripCursor = Map_set ''isActive'' (JBool False) tabStripCursor"

section \<open>browser.js: the deck of web viewers\<close>

text \<open>
  The module \<^verbatim>\<open>./deck/actions\<close> is not among the sources. Its \<^verbatim>\<open>arrange\<close>,
  \<^verbatim>\<open>select\<close> and \<^verbatim>\<open>activate\<close> are parameters.
\<close>

record deck =
  arrange :: "viewer list \<Rightarrow> viewer list"
  select_item :: "viewer list \<Rightarrow> viewer \<Rightarrow> viewer list"
  activate :: "viewer list \<Rightarrow> viewer list"

text \<open>
  Modelled from the spec: \<^verbatim>\<open>isPinned\<close> and \<^verbatim>\<open>isntPinned\<close> of \<^verbatim>\<open>./deck/actions\<close>,
  which tell whether a viewer is pinned: whether its \<^verbatim>\<open>isPinned\<close> field is truthy.
\<close>

definition isPinned :: "viewer \<Rightarrow> bool" where
  "isPinned item = truthy_value (Map_get item ''isPinned'')"

definition isntPinned :: "viewer \<Rightarrow> bool" where
  "isntPinned item = (\<not> isPinned item)"

text \<open>
  Modelled from the spec: \<^verbatim>\<open>insertBefore\<close> of \<^verbatim>\<open>./deck/actions\<close>, which puts the item
  immediately before the first item of the deck that satisfies the predicate (the spec
  does not say where it goes in a deck with no such item: here, at the end).
\<close>

definition insertBefore :: "viewer list \<Rightarrow> viewer \<Rightarrow> (viewer \<Rightarrow> bool) \<Rightarrow> viewer list" where
  "insertBefore items item p =
     takeWhile (\<lambda>x. \<not> p x) items @ item # dropWhile (\<lambda>x. \<not> p x) items"

text \<open>
  Modelled from the spec: \<^verbatim>\<open>remove\<close> of \<^verbatim>\<open>./deck/actions\<close>, which removes the viewer
  that matches the predicate: the first one that does; a deck without a match stays as
  it is.
\<close>

definition remove :: "viewer list \<Rightarrow> (viewer \<Rightarrow> bool) \<Rightarrow> viewer list" where
  "remove items p =
     takeWhile (\<lambda>x. \<not> p x) items @ drop 1 (dropWhile (\<lambda>x. \<not> p x) items)"

text \<open>
  Immutable.List: \<^verbatim>\<open>count()\<close>; \<^verbatim>\<open>get(index)\<close>, where a negative index counts from the
  end and an index outside the list gives \<^verbatim>\<open>undefined\<close>; \<^verbatim>\<open>last()\<close>; and \<^verbatim>\<open>set(0, v)\<close>,
  which replaces the first item and makes an empty list hold \<open>v\<close> alone.
\<close>

definition List_count :: "'a list \<Rightarrow> nat" where
  "List_count items = length items"

definition List_get :: "'a list \<Rightarrow> int \<Rightarrow> 'a option" where
  "List_get items index =
     (let i = (if index < 0 then int (length items) + index else index)
      in if 0 \<le> i \<and> i < int (length items) then Some (items ! nat i) else None)"

definition List_last :: "'a list \<Rightarrow> 'a option" where
  "List_last items = (if items = [] then None else Some (last items))"

definition List_set_0 :: "'a list \<Rightarrow> 'a \<Rightarrow> 'a list" where
  "List_set_0 items v = (case items of [] \<Rightarrow> [v] | x # rest \<Rightarrow> v # rest)"

text \<open>
  The Browser component hands its event handlers two cursors: one on the deck
  (\<^verbatim>\<open>webViewersCursor\<close>) and one on the active viewer (\<^verbatim>\<open>activeWebViewerCursor\<close>, the
  \<^verbatim>\<open>webViewerCursor\<close> of \<open>navigateTo\<close>). A handler reads the values under them and
  writes through them; the state of a handler is the pair of the values under the two
  cursors, and each write changes the value under its own cursor. How the render loop
  (\<^verbatim>\<open>./core\<close>, not among the sources) folds the writes into the root is outside this
  model.
\<close>

record cursors =
  webViewersCursor :: "viewer list"
  webViewerCursor :: viewer

definition openTab :: "host \<Rightarrow> string \<Rightarrow> viewer list \<Rightarrow> viewer list" where
  "openTab H uri items =
     insertBefore items
       (open (blank_viewer H)
          [(''uri'', JStr uri),
           (''isSelected'', JBool True),
           (''isFocused'', JBool True),
           (''isActive'', JBool True)])
       isntPinned"

definition navigateTo :: "url \<Rightarrow> host \<Rightarrow> string \<Rightarrow> cursors \<Rightarrow> cursors" where
  "navigateTo U H location c =
     (let uri = readInputURL U location in
      if isPinned (webViewerCursor c)
      then (c\<lparr>webViewersCursor := openTab H uri (webViewersCursor c)\<rparr>)
             \<lparr>webViewerCursor := Map_set ''userInput'' (JStr '''') (webViewerCursor c)\<rparr>
      else c\<lparr>webViewerCursor :=
               Map_merge (webViewerCursor c) [(''uri'', JStr uri), (''isFocused'', JBool True)]\<rparr>)"

text \<open>
  \<open>loadURI\<close> is curried: given the viewer alone it returns the function that waits
  for the URI, and merges nothing.
\<close>

definition loadURI :: "viewer \<Rightarrow> string \<Rightarrow> viewer" where
  "loadURI webViewer uri = Map_merge webViewer [(''uri'', JStr uri), (''isFocused'', JBool True)]"

text \<open>
  The \<^verbatim>\<open>onOpen\<close> handler of the Awesomebar. Its second branch calls
  \<^verbatim>\<open>loadURI(activeWebViewerCursor)\<close>, without the URI, and drops the function it gets.
\<close>

definition Awesomebar_onOpen :: "host \<Rightarrow> string \<Rightarrow> cursors \<Rightarrow> cursors" where
  "Awesomebar_onOpen H uri c =
     (if isPinned (webViewerCursor c)
      then c\<lparr>webViewersCursor := openTab H uri (webViewersCursor c)\<rparr>
      else (let waiting = loadURI (webViewerCursor c) in c))"

definition close :: "host \<Rightarrow> (viewer \<Rightarrow> bool) \<Rightarrow> viewer list \<Rightarrow> viewer list" where
  "close H p items =
     (if List_count items > 1 then remove items p
      else List_set_0 items
             (open (blank_viewer H) [(''isSelected'', JBool True), (''isActive'', JBool True)]))"

text \<open>
  \<^verbatim>\<open>to ? activate(select(items, to)) : items\<close>. The target is a viewer, a map, which is
  truthy, or \<^verbatim>\<open>undefined\<close>, which is not.
\<close>

definition switchTab :: "deck \<Rightarrow> viewer list \<Rightarrow> viewer option \<Rightarrow> viewer list" where
  "switchTab D items to =
     (case to of None \<Rightarrow> items | Some item \<Rightarrow> activate D (select_item D items item))"

definition switchTab_toIndex :: "deck \<Rightarrow> int \<Rightarrow> viewer list \<Rightarrow> viewer list" where
  "switchTab_toIndex D index items = switchTab D items (List_get (arrange D items) index)"

definition switchTab_toLast :: "deck \<Rightarrow> viewer list \<Rightarrow> viewer list" where
  "switchTab_toLast D items = switchTab D items (List_last (arrange D items))"

definition switchTab_toDashboard :: "deck \<Rightarrow> viewer list \<Rightarrow> viewer list" where
  "switchTab_toDashboard D = switchTab_toIndex D 0"

section \<open>Instances to run the definitions on\<close>

text \<open>
  A platform that knows the JSON texts used below, as \<^verbatim>\<open>JSON.parse\<close> and
  \<^verbatim>\<open>JSON.stringify\<close> read and write them, and no other.
\<close>

definition example_session :: json where
  "example_session = JObj [
     (''appUpdateAvailable'', JBool True),
     (''rfa'', JObj [(''id'', JNum 7)]),
     (''tabStrip'', JObj [(''isActive'', JBool True)])]"

definition example_saved :: json where
  "example_saved = JObj [
     (''appUpdateAvailable'', JBool False),
     (''rfa'', JObj [(''id'', JNum (- 1))]),
     (''tabStrip'', JObj [(''isActive'', JBool True)])]"

definition example_text :: string where
  \<open>example_text = ''{"appUpdateAvailable":false,"rfa":{"id":-1},"tabStrip":{"isActive":true}}''\<close>

definition example_platform :: platform where
  "example_platform =
     \<lparr> JSON_parse = (\<lambda>t. if t = example_text then Inr example_saved
                         else if t = ''false'' then Inr (JBool False)
                         else Inl SyntaxError),
       JSON_stringify = (\<lambda>v. if v = example_saved then example_text else ''null'') \<rparr>"

definition example_host :: host where
  "example_host =
     \<lparr> document_hasFocus = True,
       initDashboard = (\<lambda>options. options),
       blank_viewer = [(''uri'', JNull), (''isFocused'', JBool True)] \<rparr>"

text \<open>
  A deck of two viewers, the pinned dashboard and a page, and an instance of
  \<^verbatim>\<open>./deck/actions\<close>: \<open>arrange\<close> keeps the order, \<open>select_item\<close> marks the item and
  no other as selected, \<open>activate\<close> makes the selected viewer the active one.
\<close>

definition example_dashboard :: viewer where
  "example_dashboard =
     [(''id'', JStr ''about:blank''), (''isPinned'', JBool True),
      (''isSelected'', JBool False), (''isActive'', JBool False),
      (''userInput'', JStr ''b.org'')]"

definition example_page :: viewer where
  "example_page =
     [(''id'', JStr ''1''), (''uri'', JStr ''http://a.org''),
      (''isSelected'', JBool True), (''isActive'', JBool True),
      (''isFocused'', JBool False)]"

definition example_deck :: deck where
  "example_deck =
     \<lparr> arrange = (\<lambda>items. items),
       select_item = (\<lambda>items item. map (\<lambda>x. Map_set ''isSelected'' (JBool (x = item)) x) items),
       activate = map (\<lambda>x. Map_set ''isActive'' (JBool (truthy_value (Map_get x ''isSelected''))) x) \<rparr>"

section \<open>Reading the location input: results\<close>

text \<open>
  C1. For every input string, \<open>readInputURL\<close> returns the search URL
  \<^verbatim>\<open>https://duckduckgo.com/?q=\<close> followed by the URI-component-encoded input when the
  input is not a URL, the input prefixed with \<^verbatim>\<open>http://\<close> when it is a URL without a
  scheme, and the input itself when it is a URL with a scheme.
\<close>

theorem readInputURL_cases:
  "(isNotURL U input \<longrightarrow>
      readInputURL U input = ''https://duckduckgo.com/?q='' @ encodeURIComponent U input)
   \<and> (\<not> isNotURL U input \<and> \<not> hasScheme U input \<longrightarrow>
      readInputURL U input = ''http://'' @ input)
   \<and> (\<not> isNotURL U input \<and> hasScheme U input \<longrightarrow> readInputURL U input = input)"
  by (simp add: readInputURL_def makeSearchURL_def)

theorem readInputURL_cases_witness:
  "isNotURL example_url ''two words''
   \<and> readInputURL example_url ''two words'' = ''https://duckduckgo.com/?q=two%20words''
   \<and> \<not> isNotURL example_url ''a.org'' \<and> \<not> hasScheme example_url ''a.org''
   \<and> readInputURL example_url ''a.org'' = ''http://a.org''
   \<and> \<not> isNotURL example_url ''ftp://a.org'' \<and> hasScheme example_url ''ftp://a.org''
   \<and> readInputURL example_url ''ftp://a.org'' = ''ftp://a.org''"
  using readInputURL_cases [of example_url "''two words''"]
    readInputURL_cases [of example_url "''a.org''"]
    readInputURL_cases [of example_url "''ftp://a.org''"]
  by (simp add: example_url_def)

section \<open>The session and its storage: results\<close>

lemma Map_get_Map_set:
  "Map_get (Map_set k v m) k' = (if k' = k then Some v else Map_get m k')"
  by (simp add: Map_get_def Map_set_def update_conv')

lemma Map_set_twice: "Map_set k v (Map_set k v m) = Map_set k v m"
  by (simp add: Map_set_def update_last)

lemma session_key_text: "session_key = ''session@0.0.3''"
  by (simp add: session_key_def version_def)

text \<open>
  A session is a map, and its \<^verbatim>\<open>rfa\<close> is a map: \<open>resetSession\<close> builds it so and
  \<open>writeSession\<close> relies on it. On such a session \<open>writeSession\<close> does not throw, and
  stores the text of \<open>saved_session\<close>.
\<close>

lemma writeSession_session:
  assumes "map_of m ''rfa'' = Some (JObj r)"
  shows "writeSession P (JObj m) storage =
           Inr (storage(session_key \<mapsto> JSON_stringify P (saved_session m r)))"
  using assms
  by (simp add: writeSession_def assign_in_def then_do_def saved_session_def Map_set_def
      update_conv')

lemma writeSession_no_rfa:
  assumes "get session ''rfa'' = None"
  shows "writeSession P session storage = Inl TypeError"
proof (cases session)
  case (JObj m)
  then have "map_of m ''rfa'' = None"
    using assms by simp
  then show ?thesis
    using JObj
    by (simp add: writeSession_def assign_in_def then_do_def update_conv')
qed (simp_all add: writeSession_def assign_in_def then_do_def)

lemma readSession_stored:
  "readSession P (storage(session_key \<mapsto> t)) =
     (case JSON_parse P t of Inl e \<Rightarrow> Inr JNull | Inr v \<Rightarrow> Inr v)"
  by (simp add: readSession_def readSession_try_def JSON_parse_value_def then_do_def
      fromJS_def split: sum.splits)

lemma example_saved_session:
  "saved_session [(''appUpdateAvailable'', JBool True), (''rfa'', JObj [(''id'', JNum 7)]),
       (''tabStrip'', JObj [(''isActive'', JBool True)])] [(''id'', JNum 7)] = example_saved"
  by (simp add: saved_session_def Map_set_def example_saved_def)

lemma example_parse_text: "JSON_parse example_platform example_text = Inr example_saved"
  by (simp add: example_platform_def)

text \<open>
  C3. For every session state \<open>s\<close>, \<open>writeSession s\<close> followed by \<open>readSession\<close>
  returns \<open>s\<close> with its \<^verbatim>\<open>appUpdateAvailable\<close> field set to false and the \<^verbatim>\<open>id\<close> of its
  \<^verbatim>\<open>rfa\<close> set to \<open>-1\<close>; the text goes through the storage under the key
  \<^verbatim>\<open>session@0.0.3\<close>. The platform's part is that \<^verbatim>\<open>JSON.parse\<close> reads back what
  \<^verbatim>\<open>JSON.stringify\<close> wrote.
\<close>

theorem write_then_read:
  assumes "map_of m ''rfa'' = Some (JObj r)"
    and "JSON_parse P (JSON_stringify P (saved_session m r)) = Inr (saved_session m r)"
  shows "\<exists>storage'.
           writeSession P (JObj m) storage = Inr storage'
           \<and> storage' = storage(''session@0.0.3'' \<mapsto> JSON_stringify P (saved_session m r))
           \<and> readSession P storage' = Inr (saved_session m r)"
proof -
  have w: "writeSession P (JObj m) storage =
             Inr (storage(session_key \<mapsto> JSON_stringify P (saved_session m r)))"
    using assms(1) by (rule writeSession_session)
  have r: "readSession P (storage(session_key \<mapsto> JSON_stringify P (saved_session m r)))
             = Inr (saved_session m r)"
    by (simp add: readSession_stored assms(2))
  show ?thesis
    using w r session_key_text by simp
qed

theorem write_then_read_witness:
  "map_of [(''appUpdateAvailable'', JBool True), (''rfa'', JObj [(''id'', JNum 7)]),
           (''tabStrip'', JObj [(''isActive'', JBool True)])] ''rfa''
     = Some (JObj [(''id'', JNum 7)])
   \<and> example_session = JObj [(''appUpdateAvailable'', JBool True),
        (''rfa'', JObj [(''id'', JNum 7)]), (''tabStrip'', JObj [(''isActive'', JBool True)])]
   \<and> (\<exists>storage'. writeSession example_platform example_session Map.empty = Inr storage'
         \<and> storage' = [''session@0.0.3'' \<mapsto> example_text]
         \<and> readSession example_platform storage' = Inr example_saved)"
proof -
  have h1: "map_of [(''appUpdateAvailable'', JBool True), (''rfa'', JObj [(''id'', JNum 7)]),
           (''tabStrip'', JObj [(''isActive'', JBool True)])] ''rfa''
     = Some (JObj [(''id'', JNum 7)])"
    by simp
  have h2: "JSON_parse example_platform (JSON_stringify example_platform example_saved)
              = Inr example_saved"
    by (simp add: example_platform_def)
  show ?thesis
    using write_then_read [OF h1, of example_platform Map.empty] h2 example_saved_session
    by (simp add: example_session_def example_platform_def)
qed

text \<open>
  C4. For every session state, \<open>writeSession\<close> stores a serialization in which
  \<^verbatim>\<open>appUpdateAvailable\<close> is false and \<^verbatim>\<open>rfa.id\<close> is \<open>-1\<close>, whatever the two fields hold in
  the session being saved, and in which every other field has the value it has in the
  session.
\<close>

theorem writeSession_stores:
  assumes "get session ''rfa'' = Some (JObj r)"
  shows "\<exists>w r'.
           writeSession P session storage =
             Inr (storage(''session@0.0.3'' \<mapsto> JSON_stringify P w))
           \<and> get w ''appUpdateAvailable'' = Some (JBool False)
           \<and> get w ''rfa'' = Some (JObj r')
           \<and> map_of r' ''id'' = Some (JNum (- 1))
           \<and> (\<forall>k. k \<noteq> ''id'' \<longrightarrow> map_of r' k = map_of r k)
           \<and> (\<forall>k. k \<noteq> ''appUpdateAvailable'' \<and> k \<noteq> ''rfa'' \<longrightarrow> get w k = get session k)"
proof -
  obtain m where m: "session = JObj m"
    using assms by (cases session) simp_all
  have rfa: "map_of m ''rfa'' = Some (JObj r)"
    using assms m by simp
  let ?r' = "Map_set ''id'' (JNum (- 1)) r"
  have "writeSession P session storage =
          Inr (storage(''session@0.0.3'' \<mapsto> JSON_stringify P (saved_session m r)))"
    using writeSession_session [OF rfa] m session_key_text by simp
  moreover have "get (saved_session m r) ''appUpdateAvailable'' = Some (JBool False)"
    by (simp add: saved_session_def Map_set_def update_conv')
  moreover have "get (saved_session m r) ''rfa'' = Some (JObj ?r')"
    by (simp add: saved_session_def Map_set_def update_conv')
  moreover have "map_of ?r' ''id'' = Some (JNum (- 1))"
    by (simp add: Map_set_def update_conv')
  moreover have "\<forall>k. k \<noteq> ''id'' \<longrightarrow> map_of ?r' k = map_of r k"
    by (simp add: Map_set_def update_conv')
  moreover have "\<forall>k. k \<noteq> ''appUpdateAvailable'' \<and> k \<noteq> ''rfa''
                   \<longrightarrow> get (saved_session m r) k = get session k"
    using m by (simp add: saved_session_def Map_set_def update_conv')
  ultimately show ?thesis
    by blast
qed

theorem writeSession_stores_witness:
  "get example_session ''rfa'' = Some (JObj [(''id'', JNum 7)])
   \<and> (\<exists>w r'.
           writeSession example_platform example_session Map.empty =
             Inr [''session@0.0.3'' \<mapsto> JSON_stringify example_platform w]
           \<and> get w ''appUpdateAvailable'' = Some (JBool False)
           \<and> get w ''rfa'' = Some (JObj r')
           \<and> map_of r' ''id'' = Some (JNum (- 1))
           \<and> (\<forall>k. k \<noteq> ''id'' \<longrightarrow> map_of r' k = map_of [(''id'', JNum 7)] k)
           \<and> (\<forall>k. k \<noteq> ''appUpdateAvailable'' \<and> k \<noteq> ''rfa''
                  \<longrightarrow> get w k = get example_session k))"
proof -
  have h: "get example_session ''rfa'' = Some (JObj [(''id'', JNum 7)])"
    by (simp add: example_session_def)
  show ?thesis
    using h writeSession_stores [OF h, of example_platform Map.empty] by (rule conjI)
qed

text \<open>
  C5. \<open>readSession\<close> returns the data parsed from the text stored under the version key
  when there is one and it parses as JSON; it returns null, and never throws, when no
  text is stored or the stored text is not JSON.
\<close>

theorem readSession_cases:
  "(storage session_key = Some t \<and> JSON_parse P t = Inr v
      \<longrightarrow> readSession P storage = Inr (fromJS v))
   \<and> (storage session_key = Some t \<and> JSON_parse P t = Inl e
      \<longrightarrow> readSession P storage = Inr JNull)
   \<and> (storage session_key = None \<longrightarrow> readSession P storage = Inr JNull)
   \<and> (\<exists>v. readSession P storage = Inr v)
   \<and> session_key = ''session@'' @ version"
  by (auto simp add: readSession_def readSession_try_def JSON_parse_value_def then_do_def
      fromJS_def session_key_def split: sum.splits option.splits)

theorem readSession_cases_witness:
  "[session_key \<mapsto> example_text] session_key = Some example_text
   \<and> JSON_parse example_platform example_text = Inr example_saved
   \<and> readSession example_platform [session_key \<mapsto> example_text] = Inr example_saved
   \<and> [session_key \<mapsto> ''{rfa''] session_key = Some ''{rfa''
   \<and> JSON_parse example_platform ''{rfa'' = Inl SyntaxError
   \<and> readSession example_platform [session_key \<mapsto> ''{rfa''] = Inr JNull
   \<and> Map.empty session_key = (None :: string option)
   \<and> readSession example_platform Map.empty = Inr JNull"
  using readSession_cases [of "[session_key \<mapsto> example_text]" example_text
      example_platform example_saved]
    readSession_cases [of "[session_key \<mapsto> ''{rfa'']" "''{rfa''" example_platform _
      SyntaxError]
    readSession_cases [of Map.empty _ example_platform]
  by (simp add: example_platform_def example_text_def fromJS_def)

section \<open>The state the browser starts with: results\<close>

lemma falsy_values:
  "(\<not> truthy r) = (r = JNull \<or> r = JBool False \<or> r = JNum 0 \<or> r = JStr [])"
  by (cases r) auto

lemma resetSession_viewer:
  "\<exists>v. get (resetSession H) ''webViewers'' = Some (JArr [JObj v])
       \<and> Map_get v ''isPinned'' = Some (JBool True)
       \<and> Map_get v ''isSelected'' = Some (JBool True)
       \<and> Map_get v ''isActive'' = Some (JBool True)
       \<and> Map_get v ''isFocused'' = Some (JBool False)"
  by (simp add: resetSession_def fromJS_def open_def Map_get_Map_set)

text \<open>
  C6, as the code has it. At startup the browser is rendered with what \<open>readSession\<close>
  returns when that is truthy, and with the blank session of \<open>resetSession\<close> when it is
  not: when it is null, false, zero or the empty string. The blank session has one web
  viewer, which is pinned, selected, active and not focused, an input with an empty
  value and \<^verbatim>\<open>isFocused\<close> false, a tab strip with \<^verbatim>\<open>isActive\<close> false, and suggestions with
  \<^verbatim>\<open>selectedIndex\<close> \<open>-1\<close> and an empty list.
\<close>

theorem initial_state_cases:
  "(readSession P storage = Inr r \<and> truthy r \<longrightarrow> initial_state P H storage = Inr r)
   \<and> (readSession P storage = Inr r \<and> \<not> truthy r
        \<longrightarrow> initial_state P H storage = Inr (resetSession H))
   \<and> (\<not> truthy r) = (r = JNull \<or> r = JBool False \<or> r = JNum 0 \<or> r = JStr [])
   \<and> (\<exists>v. get (resetSession H) ''webViewers'' = Some (JArr [JObj v])
         \<and> Map_get v ''isPinned'' = Some (JBool True)
         \<and> Map_get v ''isSelected'' = Some (JBool True)
         \<and> Map_get v ''isActive'' = Some (JBool True)
         \<and> Map_get v ''isFocused'' = Some (JBool False))
   \<and> get (resetSession H) ''input''
       = Some (JObj [(''value'', JStr []), (''isFocused'', JBool False)])
   \<and> get (resetSession H) ''tabStrip'' = Some (JObj [(''isActive'', JBool False)])
   \<and> get (resetSession H) ''suggestions''
       = Some (JObj [(''selectedIndex'', JNum (- 1)), (''list'', JArr [])])"
proof -
  have a: "readSession P storage = Inr r \<and> truthy r \<longrightarrow> initial_state P H storage = Inr r"
    by (simp add: initial_state_def then_do_def)
  have b: "readSession P storage = Inr r \<and> \<not> truthy r
        \<longrightarrow> initial_state P H storage = Inr (resetSession H)"
    by (simp add: initial_state_def then_do_def)
  have c: "get (resetSession H) ''input''
       = Some (JObj [(''value'', JStr []), (''isFocused'', JBool False)])"
    by (simp add: resetSession_def fromJS_def)
  have d: "get (resetSession H) ''tabStrip'' = Some (JObj [(''isActive'', JBool False)])"
    by (simp add: resetSession_def fromJS_def)
  have e: "get (resetSession H) ''suggestions''
       = Some (JObj [(''selectedIndex'', JNum (- 1)), (''list'', JArr [])])"
    by (simp add: resetSession_def fromJS_def)
  show ?thesis
    using a b c d e falsy_values [of r] resetSession_viewer [of H] by blast
qed

theorem initial_state_cases_witness:
  "readSession example_platform [session_key \<mapsto> example_text] = Inr example_saved
   \<and> truthy example_saved
   \<and> initial_state example_platform example_host [session_key \<mapsto> example_text]
       = Inr example_saved
   \<and> readSession example_platform Map.empty = Inr JNull
   \<and> \<not> truthy JNull
   \<and> initial_state example_platform example_host Map.empty = Inr (resetSession example_host)"
proof -
  have r1: "readSession example_platform [session_key \<mapsto> example_text] = Inr example_saved"
    using readSession_stored [of example_platform Map.empty example_text] example_parse_text
    by simp
  have t1: "truthy example_saved"
    by (simp add: example_saved_def)
  have r2: "readSession example_platform Map.empty = Inr JNull"
    by (simp add: readSession_def readSession_try_def JSON_parse_value_def then_do_def)
  have t2: "\<not> truthy JNull"
    by simp
  show ?thesis
    using r1 t1 r2 t2
      initial_state_cases [of example_platform "[session_key \<mapsto> example_text]"
        example_saved example_host]
      initial_state_cases [of example_platform Map.empty JNull example_host]
    by blast
qed

text \<open>
  The claim as the spec words it, rendering with the stored session whenever
  \<open>readSession\<close> returns a value other than null, fails where the stored text is
  \<^verbatim>\<open>false\<close>: \<open>readSession\<close> returns false, which is not null, and the browser starts with
  the blank session.
\<close>

theorem initial_state_counterexample:
  "readSession example_platform [session_key \<mapsto> ''false''] = Inr (JBool False)
   \<and> JBool False \<noteq> JNull
   \<and> initial_state example_platform example_host [session_key \<mapsto> ''false'']
       = Inr (resetSession example_host)
   \<and> resetSession example_host \<noteq> JBool False"
proof -
  have p: "JSON_parse example_platform ''false'' = Inr (JBool False)"
    by (simp add: example_platform_def example_text_def)
  have r: "readSession example_platform [session_key \<mapsto> ''false''] = Inr (JBool False)"
    using readSession_stored [of example_platform Map.empty "''false''"] p by simp
  have i: "initial_state example_platform example_host [session_key \<mapsto> ''false'']
       = Inr (resetSession example_host)"
    using r by (simp add: initial_state_def then_do_def)
  have n: "resetSession example_host \<noteq> JBool False"
    by (simp add: resetSession_def fromJS_def)
  show ?thesis
    using r i n by simp
qed

section \<open>The deck of web viewers: results\<close>

lemma Awesomebar_onOpen_not_pinned:
  "\<not> isPinned (webViewerCursor c) \<Longrightarrow> Awesomebar_onOpen H uri c = c"
  by (simp add: Awesomebar_onOpen_def)

lemma navigateTo_not_pinned:
  "\<not> isPinned (webViewerCursor c) \<Longrightarrow>
     navigateTo U H location c =
       c\<lparr>webViewerCursor :=
           Map_merge (webViewerCursor c)
             [(''uri'', JStr (readInputURL U location)), (''isFocused'', JBool True)]\<rparr>"
  by (simp add: navigateTo_def)

lemma example_page_not_pinned: "\<not> isPinned example_page"
  by (simp add: isPinned_def example_page_def Map_get_def truthy_value_def)

lemma example_dashboard_pinned: "isPinned example_dashboard"
  by (simp add: isPinned_def example_dashboard_def Map_get_def truthy_value_def)

text \<open>
  C2. Opening a URI from the awesomebar while the active viewer is not pinned should
  update the state as navigating to that URI does: the active viewer's \<^verbatim>\<open>uri\<close> becomes
  the URI and its \<^verbatim>\<open>isFocused\<close> becomes true. The handler does not: it leaves both
  cursors as they are, where \<open>navigateTo\<close> merges the two fields. Here the handler and
  \<open>navigateTo\<close> run on a page at \<^verbatim>\<open>http://a.org\<close>, opening \<^verbatim>\<open>http://b.org\<close>.
\<close>

theorem Awesomebar_onOpen_drops_uri:
  "\<not> isPinned example_page
   \<and> Awesomebar_onOpen example_host ''http://b.org''
        \<lparr>webViewersCursor = [example_dashboard, example_page], webViewerCursor = example_page\<rparr>
      = \<lparr>webViewersCursor = [example_dashboard, example_page], webViewerCursor = example_page\<rparr>
   \<and> Map_get example_page ''uri'' = Some (JStr ''http://a.org'')
   \<and> Map_get example_page ''isFocused'' = Some (JBool False)
   \<and> readInputURL example_url ''http://b.org'' = ''http://b.org''
   \<and> Map_get (webViewerCursor (navigateTo example_url example_host ''http://b.org''
        \<lparr>webViewersCursor = [example_dashboard, example_page], webViewerCursor = example_page\<rparr>))
        ''uri'' = Some (JStr ''http://b.org'')
   \<and> Map_get (webViewerCursor (navigateTo example_url example_host ''http://b.org''
        \<lparr>webViewersCursor = [example_dashboard, example_page], webViewerCursor = example_page\<rparr>))
        ''isFocused'' = Some (JBool True)"
proof -
  let ?c = "\<lparr>webViewersCursor = [example_dashboard, example_page], webViewerCursor = example_page\<rparr>"
  have np: "\<not> isPinned (webViewerCursor ?c)"
    using example_page_not_pinned by simp
  have a: "Awesomebar_onOpen example_host ''http://b.org'' ?c = ?c"
    using np by (rule Awesomebar_onOpen_not_pinned)
  have u: "readInputURL example_url ''http://b.org'' = ''http://b.org''"
    by (simp add: readInputURL_def example_url_def)
  have n: "webViewerCursor (navigateTo example_url example_host ''http://b.org'' ?c)
            = Map_merge example_page [(''uri'', JStr ''http://b.org''), (''isFocused'', JBool True)]"
    using navigateTo_not_pinned [OF np, of example_url example_host "''http://b.org''"] u
    by simp
  have g1: "Map_get (Map_merge example_page
              [(''uri'', JStr ''http://b.org''), (''isFocused'', JBool True)]) ''uri''
            = Some (JStr ''http://b.org'')"
    by (simp add: Map_get_Map_set)
  have g2: "Map_get (Map_merge example_page
              [(''uri'', JStr ''http://b.org''), (''isFocused'', JBool True)]) ''isFocused''
            = Some (JBool True)"
    by (simp add: Map_get_Map_set)
  have p1: "Map_get example_page ''uri'' = Some (JStr ''http://a.org'')"
    by (simp add: Map_get_def example_page_def)
  have p2: "Map_get example_page ''isFocused'' = Some (JBool False)"
    by (simp add: Map_get_def example_page_def)
  show ?thesis
    using example_page_not_pinned a u p1 p2 g1 g2 n by simp
qed

lemma insertBefore_isntPinned:
  "insertBefore items item isntPinned =
     takeWhile isPinned items @ item # dropWhile isPinned items"
  by (simp add: insertBefore_def isntPinned_def)

lemma dropWhile_starts:
  "dropWhile P xs = [] \<or> \<not> P (hd (dropWhile P xs))"
  using hd_dropWhile [of P xs] by blast

lemma opened_tab_fields:
  "Map_get (open blank [(''uri'', JStr uri), (''isSelected'', JBool True),
                       (''isFocused'', JBool True), (''isActive'', JBool True)]) ''uri''
     = Some (JStr uri)
   \<and> Map_get (open blank [(''uri'', JStr uri), (''isSelected'', JBool True),
                       (''isFocused'', JBool True), (''isActive'', JBool True)]) ''isSelected''
     = Some (JBool True)
   \<and> Map_get (open blank [(''uri'', JStr uri), (''isSelected'', JBool True),
                       (''isFocused'', JBool True), (''isActive'', JBool True)]) ''isFocused''
     = Some (JBool True)
   \<and> Map_get (open blank [(''uri'', JStr uri), (''isSelected'', JBool True),
                       (''isFocused'', JBool True), (''isActive'', JBool True)]) ''isActive''
     = Some (JBool True)"
  by (simp add: open_def Map_get_Map_set)

text \<open>
  C7. For every deck whose active viewer is pinned, navigating to a location opens a new
  viewer that carries the resolved URI with \<^verbatim>\<open>isSelected\<close>, \<^verbatim>\<open>isFocused\<close> and
  \<^verbatim>\<open>isActive\<close> true, puts it immediately before the first item of the deck that is not
  pinned (after the pinned items that lead the deck), and sets the \<^verbatim>\<open>userInput\<close> of the
  pinned viewer to the empty string.
\<close>

theorem navigateTo_pinned:
  assumes "isPinned (webViewerCursor c)"
  shows "\<exists>new.
           webViewersCursor (navigateTo U H location c)
             = takeWhile isPinned (webViewersCursor c) @ new
                 # dropWhile isPinned (webViewersCursor c)
           \<and> (\<forall>x \<in> set (takeWhile isPinned (webViewersCursor c)). isPinned x)
           \<and> (dropWhile isPinned (webViewersCursor c) = []
                \<or> \<not> isPinned (hd (dropWhile isPinned (webViewersCursor c))))
           \<and> Map_get new ''uri'' = Some (JStr (readInputURL U location))
           \<and> Map_get new ''isSelected'' = Some (JBool True)
           \<and> Map_get new ''isFocused'' = Some (JBool True)
           \<and> Map_get new ''isActive'' = Some (JBool True)
           \<and> webViewerCursor (navigateTo U H location c)
               = Map_set ''userInput'' (JStr []) (webViewerCursor c)
           \<and> Map_get (webViewerCursor (navigateTo U H location c)) ''userInput''
               = Some (JStr [])"
proof -
  let ?items = "webViewersCursor c"
  let ?new = "open (blank_viewer H)
                [(''uri'', JStr (readInputURL U location)), (''isSelected'', JBool True),
                 (''isFocused'', JBool True), (''isActive'', JBool True)]"
  have pre: "\<forall>x \<in> set (takeWhile isPinned ?items). isPinned x"
    by (auto dest: set_takeWhileD)
  have post: "dropWhile isPinned ?items = [] \<or> \<not> isPinned (hd (dropWhile isPinned ?items))"
    by (rule dropWhile_starts)
  have deck: "webViewersCursor (navigateTo U H location c)
                = takeWhile isPinned ?items @ ?new # dropWhile isPinned ?items"
    using assms by (simp add: navigateTo_def openTab_def insertBefore_isntPinned)
  have viewer: "webViewerCursor (navigateTo U H location c)
                  = Map_set ''userInput'' (JStr []) (webViewerCursor c)"
    using assms by (simp add: navigateTo_def)
  have input: "Map_get (webViewerCursor (navigateTo U H location c)) ''userInput''
                 = Some (JStr [])"
    using viewer by (simp add: Map_get_Map_set)
  have f1: "Map_get ?new ''uri'' = Some (JStr (readInputURL U location))"
    by (simp add: opened_tab_fields)
  have f2: "Map_get ?new ''isSelected'' = Some (JBool True)"
    by (simp add: opened_tab_fields)
  have f3: "Map_get ?new ''isFocused'' = Some (JBool True)"
    by (simp add: opened_tab_fields)
  have f4: "Map_get ?new ''isActive'' = Some (JBool True)"
    by (simp add: opened_tab_fields)
  show ?thesis
  proof (intro exI conjI)
    show "webViewersCursor (navigateTo U H location c)
            = takeWhile isPinned ?items @ ?new # dropWhile isPinned ?items"
      by (rule deck)
  qed (rule pre post f1 f2 f3 f4 viewer input)+
qed

theorem navigateTo_pinned_witness:
  "isPinned example_dashboard
   \<and> (\<exists>new.
        webViewersCursor (navigateTo example_url example_host ''a.org''
          \<lparr>webViewersCursor = [example_dashboard, example_page],
           webViewerCursor = example_dashboard\<rparr>)
          = [example_dashboard, new, example_page]
        \<and> Map_get new ''uri'' = Some (JStr ''http://a.org'')
        \<and> Map_get new ''isSelected'' = Some (JBool True)
        \<and> Map_get new ''isFocused'' = Some (JBool True)
        \<and> Map_get new ''isActive'' = Some (JBool True))
   \<and> Map_get (webViewerCursor (navigateTo example_url example_host ''a.org''
          \<lparr>webViewersCursor = [example_dashboard, example_page],
           webViewerCursor = example_dashboard\<rparr>)) ''userInput'' = Some (JStr [])"
proof -
  let ?c = "\<lparr>webViewersCursor = [example_dashboard, example_page],
             webViewerCursor = example_dashboard\<rparr>"
  have h: "isPinned (webViewerCursor ?c)"
    using example_dashboard_pinned by simp
  have u: "readInputURL example_url ''a.org'' = ''http://a.org''"
    by (simp add: readInputURL_def example_url_def)
  have t: "takeWhile isPinned (webViewersCursor ?c) = [example_dashboard]"
    using example_dashboard_pinned example_page_not_pinned by simp
  have d: "dropWhile isPinned (webViewersCursor ?c) = [example_page]"
    using example_dashboard_pinned example_page_not_pinned by simp
  from navigateTo_pinned [OF h, of example_url example_host "''a.org''"]
  obtain new where
    n1: "webViewersCursor (navigateTo example_url example_host ''a.org'' ?c)
          = [example_dashboard] @ new # [example_page]"
    and n2: "Map_get new ''uri'' = Some (JStr ''http://a.org'')"
    and n3: "Map_get new ''isSelected'' = Some (JBool True)"
    and n4: "Map_get new ''isFocused'' = Some (JBool True)"
    and n5: "Map_get new ''isActive'' = Some (JBool True)"
    and n6: "Map_get (webViewerCursor (navigateTo example_url example_host ''a.org'' ?c))
              ''userInput'' = Some (JStr [])"
    unfolding t d u by blast
  have n1': "webViewersCursor (navigateTo example_url example_host ''a.org'' ?c)
          = [example_dashboard, new, example_page]"
    using n1 by simp
  have "\<exists>new. webViewersCursor (navigateTo example_url example_host ''a.org'' ?c)
          = [example_dashboard, new, example_page]
        \<and> Map_get new ''uri'' = Some (JStr ''http://a.org'')
        \<and> Map_get new ''isSelected'' = Some (JBool True)
        \<and> Map_get new ''isFocused'' = Some (JBool True)
        \<and> Map_get new ''isActive'' = Some (JBool True)"
    using n1' n2 n3 n4 n5 by (intro exI [of _ new] conjI)
  then show ?thesis
    using example_dashboard_pinned n6 by (intro conjI)
qed

lemma remove_no_match:
  "\<forall>x \<in> set items. \<not> p x \<Longrightarrow> remove items p = items"
  by (induction items) (simp_all add: remove_def)

lemma remove_first_match:
  assumes "\<forall>y \<in> set pre. \<not> p y" and "p x"
  shows "remove (pre @ x # post) p = pre @ post"
  using assms by (simp add: remove_def takeWhile_append2 dropWhile_append2)

lemma first_match_split:
  assumes "\<exists>x \<in> set items. p x"
  shows "\<exists>pre x post. items = pre @ x # post \<and> (\<forall>y \<in> set pre. \<not> p y) \<and> p x"
  using assms split_list_first_prop [of items p] by blast

lemma length_remove_match:
  assumes "\<exists>x \<in> set items. p x"
  shows "length (remove items p) + 1 = length items"
proof -
  from first_match_split [OF assms] obtain pre x post where
    s: "items = pre @ x # post" and n: "\<forall>y \<in> set pre. \<not> p y" and x: "p x"
    by blast
  have "remove (pre @ x # post) p = pre @ post"
    using n x by (rule remove_first_match)
  then show ?thesis
    unfolding s by simp
qed

lemma length_remove: "length items - 1 \<le> length (remove items p)"
proof (cases "\<exists>x \<in> set items. p x")
  case True
  then show ?thesis
    using length_remove_match [of items p] by linarith
next
  case False
  then have "\<forall>x \<in> set items. \<not> p x"
    by blast
  then have "remove items p = items"
    by (rule remove_no_match)
  then show ?thesis
    by simp
qed

lemma fresh_viewer_fields:
  "Map_get (open blank [(''isSelected'', JBool True), (''isActive'', JBool True)]) k
     = (if k = ''isSelected'' \<or> k = ''isActive'' then Some (JBool True) else Map_get blank k)"
  by (simp add: open_def Map_get_Map_set)

text \<open>
  C8. \<open>close\<close> leaves at least one viewer in the deck. In a deck of more than one item
  the viewer that matches the predicate is removed (the first that does; without a match
  the deck stays); a deck of one item gets, at index 0, a fresh blank viewer whose
  \<^verbatim>\<open>isSelected\<close> and \<^verbatim>\<open>isActive\<close> are true.
\<close>

theorem close_keeps_a_viewer:
  "1 \<le> length (close H p items)
   \<and> (1 < length items \<longrightarrow> close H p items = remove items p)
   \<and> (1 < length items \<and> (\<exists>x \<in> set items. p x) \<longrightarrow>
        (\<exists>pre x post. items = pre @ x # post \<and> (\<forall>y \<in> set pre. \<not> p y) \<and> p x
           \<and> close H p items = pre @ post))
   \<and> (1 < length items \<and> (\<forall>x \<in> set items. \<not> p x) \<longrightarrow> close H p items = items)
   \<and> (length items = 1 \<longrightarrow>
        close H p items
          = [open (blank_viewer H) [(''isSelected'', JBool True), (''isActive'', JBool True)]])
   \<and> Map_get (open (blank_viewer H) [(''isSelected'', JBool True), (''isActive'', JBool True)])
        ''isSelected'' = Some (JBool True)
   \<and> Map_get (open (blank_viewer H) [(''isSelected'', JBool True), (''isActive'', JBool True)])
        ''isActive'' = Some (JBool True)
   \<and> (\<forall>k. k \<noteq> ''isSelected'' \<and> k \<noteq> ''isActive'' \<longrightarrow>
        Map_get (open (blank_viewer H) [(''isSelected'', JBool True), (''isActive'', JBool True)]) k
          = Map_get (blank_viewer H) k)"
proof -
  have len: "1 \<le> length (close H p items)"
  proof (cases "1 < length items")
    case True
    then show ?thesis
      using length_remove [of items p] by (simp add: close_def List_count_def)
  next
    case False
    then show ?thesis
      by (simp add: close_def List_count_def List_set_0_def split: list.splits)
  qed
  have many: "1 < length items \<longrightarrow> close H p items = remove items p"
    by (simp add: close_def List_count_def)
  have gone: "1 < length items \<and> (\<exists>x \<in> set items. p x) \<longrightarrow>
        (\<exists>pre x post. items = pre @ x # post \<and> (\<forall>y \<in> set pre. \<not> p y) \<and> p x
           \<and> close H p items = pre @ post)"
  proof
    assume a: "1 < length items \<and> (\<exists>x \<in> set items. p x)"
    then obtain pre x post where
      s: "items = pre @ x # post" and n: "\<forall>y \<in> set pre. \<not> p y" and x: "p x"
      using first_match_split [of items p] by blast
    have "remove (pre @ x # post) p = pre @ post"
      using n x by (rule remove_first_match)
    then have "close H p items = pre @ post"
      using a many s by metis
    then show "\<exists>pre x post. items = pre @ x # post \<and> (\<forall>y \<in> set pre. \<not> p y) \<and> p x
           \<and> close H p items = pre @ post"
      using s n x by blast
  qed
  have kept: "1 < length items \<and> (\<forall>x \<in> set items. \<not> p x) \<longrightarrow> close H p items = items"
    using many remove_no_match [of items p] by metis
  have one: "length items = 1 \<longrightarrow>
        close H p items
          = [open (blank_viewer H) [(''isSelected'', JBool True), (''isActive'', JBool True)]]"
    by (cases items) (simp_all add: close_def List_count_def List_set_0_def)
  have f1: "Map_get (open (blank_viewer H)
              [(''isSelected'', JBool True), (''isActive'', JBool True)]) ''isSelected''
            = Some (JBool True)"
    by (simp add: fresh_viewer_fields)
  have f2: "Map_get (open (blank_viewer H)
              [(''isSelected'', JBool True), (''isActive'', JBool True)]) ''isActive''
            = Some (JBool True)"
    by (simp add: fresh_viewer_fields)
  have f3: "\<forall>k. k \<noteq> ''isSelected'' \<and> k \<noteq> ''isActive'' \<longrightarrow>
        Map_get (open (blank_viewer H) [(''isSelected'', JBool True), (''isActive'', JBool True)]) k
          = Map_get (blank_viewer H) k"
    by (simp add: fresh_viewer_fields)
  show ?thesis
    by (intro conjI) (rule len many gone kept one f1 f2 f3)+
qed

theorem close_keeps_a_viewer_witness:
  "1 < length [example_dashboard, example_page]
   \<and> close example_host (\<lambda>x. Map_get x ''id'' = Some (JStr ''1''))
        [example_dashboard, example_page] = [example_dashboard]
   \<and> length [example_page] = 1
   \<and> close example_host (\<lambda>x. Map_get x ''id'' = Some (JStr ''1'')) [example_page]
       = [[(''uri'', JNull), (''isFocused'', JBool True), (''isSelected'', JBool True),
           (''isActive'', JBool True)]]"
proof -
  let ?p = "\<lambda>x. Map_get x ''id'' = Some (JStr ''1'')"
  have d: "\<not> ?p example_dashboard"
    by (simp add: Map_get_def example_dashboard_def)
  have g: "?p example_page"
    by (simp add: Map_get_def example_page_def)
  have r: "remove [example_dashboard, example_page] ?p = [example_dashboard]"
    using d g by (simp add: remove_def)
  have two: "1 < length [example_dashboard, example_page]"
    by simp
  have one: "length [example_page] = 1"
    by simp
  have a: "close example_host ?p [example_dashboard, example_page] = [example_dashboard]"
    using close_keeps_a_viewer [of example_host ?p "[example_dashboard, example_page]",
        THEN conjunct2, THEN conjunct1] two r
    by simp
  have o: "open (blank_viewer example_host)
             [(''isSelected'', JBool True), (''isActive'', JBool True)]
           = [(''uri'', JNull), (''isFocused'', JBool True), (''isSelected'', JBool True),
              (''isActive'', JBool True)]"
    by (simp add: open_def example_host_def Map_set_def)
  have b: "close example_host ?p [example_page]
       = [[(''uri'', JNull), (''isFocused'', JBool True), (''isSelected'', JBool True),
           (''isActive'', JBool True)]]"
    using close_keeps_a_viewer [of example_host ?p "[example_page]",
        THEN conjunct2, THEN conjunct2, THEN conjunct2, THEN conjunct2, THEN conjunct1] one o
    by simp
  show ?thesis
    using two a one b by (intro conjI)
qed


lemma List_get_None:
  "(List_get items index = None)
     = (index < - int (length items) \<or> int (length items) \<le> index)"
  by (auto simp add: List_get_def Let_def)

text \<open>
  C9. \<open>switchTab\<close> returns the deck unchanged when the target item is absent; for every
  index at which the arranged deck has no item (an index at or beyond its length, or
  below minus its length), \<open>switchTab_toIndex\<close> is the identity on the deck, and so is
  \<open>switchTab_toLast\<close> on a deck whose arrangement is empty.
\<close>

theorem switchTab_absent:
  "switchTab D items None = items
   \<and> (List_get (arrange D items) index = None \<longrightarrow> switchTab_toIndex D index items = items)
   \<and> (List_get (arrange D items) index = None)
       = (index < - int (length (arrange D items)) \<or> int (length (arrange D items)) \<le> index)
   \<and> (List_last (arrange D items) = None \<longrightarrow> switchTab_toLast D items = items)"
proof -
  have a: "switchTab D items None = items"
    by (simp add: switchTab_def)
  have b: "List_get (arrange D items) index = None \<longrightarrow> switchTab_toIndex D index items = items"
    by (simp add: switchTab_toIndex_def a)
  have c: "List_last (arrange D items) = None \<longrightarrow> switchTab_toLast D items = items"
    by (simp add: switchTab_toLast_def a)
  show ?thesis
    by (intro conjI) (rule a b c List_get_None)+
qed

theorem switchTab_absent_witness:
  "List_get (arrange example_deck [example_dashboard, example_page]) 2 = None
   \<and> switchTab_toIndex example_deck 2 [example_dashboard, example_page]
       = [example_dashboard, example_page]
   \<and> List_get (arrange example_deck [example_dashboard, example_page]) 0 = Some example_dashboard
   \<and> switchTab_toIndex example_deck 0 [example_dashboard, example_page]
       \<noteq> [example_dashboard, example_page]
   \<and> List_last (arrange example_deck []) = None
   \<and> switchTab_toLast example_deck [] = []"
proof -
  have a: "arrange example_deck [example_dashboard, example_page]
             = [example_dashboard, example_page]"
    by (simp add: example_deck_def)
  have n: "List_get (arrange example_deck [example_dashboard, example_page]) 2 = None"
    unfolding a by (simp add: List_get_def)
  have s: "List_get (arrange example_deck [example_dashboard, example_page]) 0
             = Some example_dashboard"
    unfolding a by (simp add: List_get_def)
  have l: "List_last (arrange example_deck []) = None"
    by (simp add: example_deck_def List_last_def)
  have sel: "Map_get example_dashboard ''isSelected'' = Some (JBool False)"
    by (simp add: Map_get_def example_dashboard_def)
  have "hd (switchTab_toIndex example_deck 0 [example_dashboard, example_page])
          \<noteq> example_dashboard"
    unfolding switchTab_toIndex_def s switchTab_def
    by (simp add: example_deck_def example_dashboard_def Map_set_def)
  then have m: "switchTab_toIndex example_deck 0 [example_dashboard, example_page]
                  \<noteq> [example_dashboard, example_page]"
    by auto
  show ?thesis
    using n s l m
      switchTab_absent [of example_deck "[example_dashboard, example_page]" 2]
      switchTab_absent [of example_deck "[]" 0]
    by simp
qed


section \<open>Focus, selection and the tab strip: results\<close>

text \<open>
  C10. Each of \<open>focus\<close>, \<open>blur\<close>, \<open>select\<close>, \<open>showTabStrip\<close> and \<open>hideTabStrip\<close> sets
  its one field (\<^verbatim>\<open>isFocused\<close> to true or false, \<^verbatim>\<open>selection\<close> to \<^verbatim>\<open>{all: true}\<close>,
  \<^verbatim>\<open>isActive\<close> to true or false), leaves every other field as it is, and is idempotent.
\<close>

theorem field_setters:
  "Map_get (focus m) ''isFocused'' = Some (JBool True)
   \<and> (\<forall>k. k \<noteq> ''isFocused'' \<longrightarrow> Map_get (focus m) k = Map_get m k)
   \<and> focus (focus m) = focus m
   \<and> Map_get (blur m) ''isFocused'' = Some (JBool False)
   \<and> (\<forall>k. k \<noteq> ''isFocused'' \<longrightarrow> Map_get (blur m) k = Map_get m k)
   \<and> blur (blur m) = blur m
   \<and> Map_get (select m) ''selection'' = Some (JObj [(''all'', JBool True)])
   \<and> (\<forall>k. k \<noteq> ''selection'' \<longrightarrow> Map_get (select m) k = Map_get m k)
   \<and> select (select m) = select m
   \<and> Map_get (showTabStrip m) ''isActive'' = Some (JBool True)
   \<and> (\<forall>k. k \<noteq> ''isActive'' \<longrightarrow> Map_get (showTabStrip m) k = Map_get m k)
   \<and> showTabStrip (showTabStrip m) = showTabStrip m
   \<and> Map_get (hideTabStrip m) ''isActive'' = Some (JBool False)
   \<and> (\<forall>k. k \<noteq> ''isActive'' \<longrightarrow> Map_get (hideTabStrip m) k = Map_get m k)
   \<and> hideTabStrip (hideTabStrip m) = hideTabStrip m"
  by (simp add: focus_def blur_def select_def showTabStrip_def hideTabStrip_def
      Map_get_Map_set Map_set_twice)

theorem field_setters_witness:
  "''value'' \<noteq> ''isFocused''
   \<and> Map_get (focus [(''value'', JStr ''a''), (''isFocused'', JBool False)]) ''value''
       = Some (JStr ''a'')
   \<and> focus [(''value'', JStr ''a''), (''isFocused'', JBool False)]
       = [(''value'', JStr ''a''), (''isFocused'', JBool True)]
   \<and> blur [(''value'', JStr ''a''), (''isFocused'', JBool True)]
       = [(''value'', JStr ''a''), (''isFocused'', JBool False)]
   \<and> select [(''value'', JStr ''a'')]
       = [(''value'', JStr ''a''), (''selection'', JObj [(''all'', JBool True)])]
   \<and> showTabStrip [(''isActive'', JBool False)] = [(''isActive'', JBool True)]
   \<and> hideTabStrip [(''isActive'', JBool True)] = [(''isActive'', JBool False)]"
  using field_setters [of "[(''value'', JStr ''a''), (''isFocused'', JBool False)]"]
  by (simp add: focus_def blur_def select_def showTabStrip_def hideTabStrip_def Map_set_def
      Map_get_def)

end
